theory Spec2Isabelle
  imports Complex_Main "HOL-Library.Word" "HOL-Library.Monad_Syntax"
begin

unbundle bit_operations_syntax

section \<open>Data model of \<open>MyUnorderedMap\<close>\<close>

text \<open>
  The container of \<open>my_unordered_map.hpp\<close> is a hash table whose elements all live on one
  singly linked list; the bucket array points into that list. The model keeps the
  pointers: a node is a record stored at an address, the container is a record of its
  fields together with the store of the nodes it owns.

  \<^item> \<open>size_t\<close> is a 64-bit word wherever the program computes with it (hashes, bucket
    counts). The element counter \<open>__count\<close> is a natural number: it counts live nodes,
    the store of the model is not bounded, and so \<open>++__count\<close> does not wrap; \<open>--__count\<close>
    wraps at 0 as \<open>size_t\<close> does.
  \<^item> \<open>float __max_load_factor\<close> is a rational number and the arithmetic on it is exact;
    the rounding of binary32 is outside this model.
  \<^item> \<open>Hash\<close> is a parameter \<open>hasher\<close> of every operation that hashes a key; \<open>Cmp\<close> is
    the default \<open>std::equal_to\<close>, that is equality.
  \<^item> Allocation never fails (no \<open>std::bad_alloc\<close>); the allocator hands out the addresses
    \<open>0, 1, 2, ...\<close> and never reuses one. Every container has a store of its own, since
    no node is ever shared between two containers.
  \<^item> A result is an \<open>option\<close>: \<open>None\<close> says that the call has no defined result, because
    it reads through a null or dangling pointer, indexes the bucket array out of range,
    converts an out-of-range float to \<open>size_t\<close>, or never leaves a loop. The one exception
    the code throws itself, \<open>std::out_of_range\<close> in \<open>rehash\<close>, is a value of type \<open>error\<close>.
\<close>

type_synonym size_t = "64 word"
type_synonym addr = nat

record ('k, 'v) bucket =
  item :: "'k \<times> 'v"
  hash :: size_t
  nxt :: "addr option"

datatype error = OutOfRange

record ('k, 'v) mumap =
  mem :: "addr \<Rightarrow> ('k, 'v) bucket option"
  brk :: addr
  m_size :: size_t
  m_count :: nat
  m_max_load_factor :: rat
  array :: "addr option list option"
  m_start :: "addr option"
  m_end :: addr

text \<open>
  \<open>mem\<close> and \<open>brk\<close> are \<open>bucket_alloc\<close>: the live nodes and the next address to hand out.
  \<open>array\<close> is \<open>None\<close> for \<open>nullptr\<close>, and a slot of it is the \<open>next\<close> field of a \<open>Buckets\<close>.
  \<open>m_start\<close> is \<open>__start.next\<close>, the only field of the before-first sentinel that the
  program uses; \<open>m_end\<close> is \<open>__end\<close>.
\<close>

definition new_bucket :: "('k, 'v) mumap \<Rightarrow> ('k, 'v) bucket \<Rightarrow> addr \<times> ('k, 'v) mumap" where
  "new_bucket s b = (brk s, s\<lparr>mem := (mem s)(brk s \<mapsto> b), brk := Suc (brk s)\<rparr>)"

definition array_read :: "addr option list \<Rightarrow> size_t \<Rightarrow> addr option option" where
  "array_read arr h = (if unat h < length arr then Some (arr ! unat h) else None)"

definition array_write :: "addr option list \<Rightarrow> size_t \<Rightarrow> addr option \<Rightarrow> addr option list option" where
  "array_write arr h p = (if unat h < length arr then Some (arr[unat h := p]) else None)"

definition set_nxt ::
  "(addr \<Rightarrow> ('k, 'v) bucket option) \<Rightarrow> addr \<Rightarrow> addr option \<Rightarrow> (addr \<Rightarrow> ('k, 'v) bucket option) option" where
  "set_nxt m a p = do { b \<leftarrow> m a; Some (m(a \<mapsto> b\<lparr>nxt := p\<rparr>)) }"

definition set_hash ::
  "(addr \<Rightarrow> ('k, 'v) bucket option) \<Rightarrow> addr \<Rightarrow> size_t \<Rightarrow> (addr \<Rightarrow> ('k, 'v) bucket option) option" where
  "set_hash m a h = do { b \<leftarrow> m a; Some (m(a \<mapsto> b\<lparr>hash := h\<rparr>)) }"

section \<open>Hash constraining\<close>

definition constrain_hash :: "size_t \<Rightarrow> size_t \<Rightarrow> size_t" where
  "constrain_hash h sz =
     (if sz AND (sz - 1) = 0 then h AND (sz - 1)
      else if h < sz then h else h mod sz)"

definition is_hash_power2 :: "size_t \<Rightarrow> bool" where
  "is_hash_power2 sz \<longleftrightarrow> sz > 2 \<and> sz AND (sz - 1) = 0"

section \<open>The private operations\<close>

text \<open>
  The loop of \<open>__bucket_insert\<close>: it walks the run of bucket \<open>h\<close> from \<open>g\<close> and stops at the
  last node of the run. \<open>Some None\<close> is the \<open>return nullptr\<close> inside the loop, \<open>Some (Some g)\<close>
  the node at which the loop ends.
\<close>

partial_function (option) bucket_insert_loop ::
  "(addr \<Rightarrow> ('k, 'v) bucket option) \<Rightarrow> addr \<Rightarrow> 'k \<Rightarrow> size_t \<Rightarrow> addr \<Rightarrow> addr option option" where
  "bucket_insert_loop m e k h g = do {
     b \<leftarrow> m g;
     n \<leftarrow> nxt b;
     if n \<noteq> e then do {
       nb \<leftarrow> m n;
       if hash nb = h then
         (if fst (item b) = k then Some None else bucket_insert_loop m e k h n)
       else Some (Some g) }
     else Some (Some g) }"

definition bucket_insert ::
  "('k, 'v) mumap \<Rightarrow> 'k \<times> 'v \<Rightarrow> size_t \<Rightarrow> (('k, 'v) mumap \<times> addr option) option" where
  "bucket_insert s pair h = do {
     arr \<leftarrow> array s;
     hd0 \<leftarrow> array_read arr h;
     case hd0 of
       None \<Rightarrow> do {
         let (a, s1) = new_bucket s \<lparr>item = pair, hash = h, nxt = m_start s\<rparr>;
         arr1 \<leftarrow> array_write arr h (Some a);
         Some (s1\<lparr>array := Some arr1, m_start := Some a\<rparr>, Some a) }
     | Some g0 \<Rightarrow> do {
         b0 \<leftarrow> mem s g0;
         if fst (item b0) = fst pair then Some (s, None)
         else do {
           r \<leftarrow> bucket_insert_loop (mem s) (m_end s) (fst pair) h g0;
           case r of
             None \<Rightarrow> Some (s, None)
           | Some g \<Rightarrow> do {
               b \<leftarrow> mem s g;
               if fst (item b) = fst pair then Some (s, None)
               else do {
                 let (a, s1) = new_bucket s \<lparr>item = pair, hash = h, nxt = nxt b\<rparr>;
                 m1 \<leftarrow> set_nxt (mem s1) g (Some a);
                 Some (s1\<lparr>mem := m1\<rparr>, Some a) } } } } }"

text \<open>
  The loop of \<open>__rehash\<close>: \<open>i\<close> runs over the old list, whose nodes are threaded one by one
  into the new list and the new bucket array.
\<close>

partial_function (option) rehash_loop ::
  "('k \<Rightarrow> size_t) \<Rightarrow> ('k, 'v) mumap \<Rightarrow> addr \<Rightarrow> ('k, 'v) mumap option" where
  "rehash_loop hasher s i =
     (if i = m_end s then Some s
      else do {
        b \<leftarrow> mem s i;
        let h = constrain_hash (hasher (fst (item b))) (m_size s);
        tmp \<leftarrow> nxt b;
        arr \<leftarrow> array s;
        hd0 \<leftarrow> array_read arr h;
        s1 \<leftarrow> (case hd0 of
            None \<Rightarrow> do {
              m1 \<leftarrow> set_nxt (mem s) i (m_start s);
              arr1 \<leftarrow> array_write arr h (Some i);
              Some (s\<lparr>mem := m1, array := Some arr1, m_start := Some i\<rparr>) }
          | Some a \<Rightarrow> do {
              hb \<leftarrow> mem s a;
              m1 \<leftarrow> set_nxt (mem s) i (nxt hb);
              m2 \<leftarrow> set_nxt m1 a (Some i);
              Some (s\<lparr>mem := m2\<rparr>) });
        m3 \<leftarrow> set_hash (mem s1) i h;
        rehash_loop hasher (s1\<lparr>mem := m3\<rparr>) tmp })"

definition rehash_internal ::
  "('k \<Rightarrow> size_t) \<Rightarrow> ('k, 'v) mumap \<Rightarrow> size_t \<Rightarrow> ('k, 'v) mumap option" where
  "rehash_internal hasher s new_size = do {
     i \<leftarrow> m_start s;
     rehash_loop hasher
       (s\<lparr>array := Some (replicate (unat new_size) None),
          m_start := Some (m_end s), m_size := new_size\<rparr>) i }"

text \<open>The loop of \<open>__find\<close>.\<close>

partial_function (option) find_loop ::
  "(addr \<Rightarrow> ('k, 'v) bucket option) \<Rightarrow> addr \<Rightarrow> 'k \<Rightarrow> size_t \<Rightarrow> addr \<Rightarrow> addr option" where
  "find_loop m e k h g =
     (if g = e then Some e
      else do {
        b \<leftarrow> m g;
        if h = hash b then
          (if fst (item b) = k then Some g
           else do { n \<leftarrow> nxt b; find_loop m e k h n })
        else Some e })"

definition find_internal :: "('k \<Rightarrow> size_t) \<Rightarrow> ('k, 'v) mumap \<Rightarrow> 'k \<Rightarrow> addr option" where
  "find_internal hasher s k = do {
     let h = constrain_hash (hasher k) (m_size s);
     arr \<leftarrow> array s;
     hd0 \<leftarrow> array_read arr h;
     case hd0 of
       None \<Rightarrow> Some (m_end s)
     | Some g \<Rightarrow> find_loop (mem s) (m_end s) k h g }"

section \<open>The public operations\<close>

definition max_load_factor :: "('k, 'v) mumap \<Rightarrow> rat \<Rightarrow> ('k, 'v) mumap" where
  "max_load_factor s f = s\<lparr>m_max_load_factor := \<bar>f\<bar>\<rparr>"

definition size_um :: "('k, 'v) mumap \<Rightarrow> size_t" where
  "size_um s = m_size s"

definition count_um :: "('k, 'v) mumap \<Rightarrow> nat" where
  "count_um s = m_count s"

definition empty_um :: "('k, 'v) mumap \<Rightarrow> bool" where
  "empty_um s = (if m_start s = Some (m_end s) then True else False)"

text \<open>
  The default constructor. \<open>d\<close> is the value-initialised pair \<open>std::pair<Key, T>()\<close> that the
  past-last sentinel holds; its \<open>hash\<close> is \<open>size_t(-1)\<close>.
\<close>

definition init :: "'k \<times> 'v \<Rightarrow> ('k, 'v) mumap" where
  "init d = \<lparr>mem = [0 \<mapsto> \<lparr>item = d, hash = - 1, nxt = None\<rparr>], brk = 1,
     m_size = 0, m_count = 0, m_max_load_factor = 1, array = None,
     m_start = Some 0, m_end = 0\<rparr>"

text \<open>
  \<open>rehash\<close> throws when \<open>new_size * __max_load_factor < __count\<close> and calls \<open>__rehash\<close>
  otherwise.
\<close>

definition rehash ::
  "('k \<Rightarrow> size_t) \<Rightarrow> ('k, 'v) mumap \<Rightarrow> size_t \<Rightarrow> (error + ('k, 'v) mumap) option" where
  "rehash hasher s new_size =
     (if of_nat (unat new_size) * m_max_load_factor s < of_nat (m_count s) then Some (Inl OutOfRange)
      else map_option Inr (rehash_internal hasher s new_size))"

text \<open>
  The bucket count that \<open>insert\<close> grows to:
  \<open>std::max<size_t>(2 * __count + !__is_hash_power2(__count),
     size_t(ceil(float(__count + 1) / __max_load_factor)))\<close>.
  The first argument wraps around as \<open>size_t\<close> does. The division by a zero load factor
  gives an infinity, and the conversion of a float that \<open>size_t\<close> cannot hold is undefined.
\<close>

definition grow_size :: "('k, 'v) mumap \<Rightarrow> size_t option" where
  "grow_size s =
     (let a = 2 * word_of_nat (m_count s) + (if is_hash_power2 (word_of_nat (m_count s)) then 0 else 1);
          c = \<lceil>of_nat (m_count s + 1) / m_max_load_factor s\<rceil>
      in if m_max_load_factor s = 0 \<or> c < 0 \<or> 2 ^ 64 \<le> c then None
         else Some (max a (word_of_int c)))"

definition insert_um ::
  "('k \<Rightarrow> size_t) \<Rightarrow> ('k, 'v) mumap \<Rightarrow> 'k \<times> 'v \<Rightarrow> (('k, 'v) mumap \<times> addr \<times> bool) option" where
  "insert_um hasher s pair = do {
     s1 \<leftarrow> (if of_nat (unat (m_size s)) * m_max_load_factor s < of_nat (m_count s + 1)
            then do { n \<leftarrow> grow_size s; rehash_internal hasher s n }
            else Some s);
     let h = constrain_hash (hasher (fst pair)) (m_size s1);
     (s2, res) \<leftarrow> bucket_insert s1 pair h;
     case res of
       Some a \<Rightarrow> Some (s2\<lparr>m_count := m_count s2 + 1\<rparr>, a, True)
     | None \<Rightarrow> Some (s2, m_end s2, False) }"

definition emplace ::
  "('k \<Rightarrow> size_t) \<Rightarrow> ('k, 'v) mumap \<Rightarrow> 'k \<Rightarrow> 'v \<Rightarrow> (('k, 'v) mumap \<times> addr \<times> bool) option" where
  "emplace hasher s k v = insert_um hasher s (k, v)"

definition find_um :: "('k \<Rightarrow> size_t) \<Rightarrow> ('k, 'v) mumap \<Rightarrow> 'k \<Rightarrow> addr option" where
  "find_um hasher s k = (if array s = None then Some (m_end s) else find_internal hasher s k)"

text \<open>
  \<open>operator[]\<close>, with \<open>dv\<close> the value \<open>T()\<close>. The result is the new state and the address of
  the node whose \<open>second\<close> the returned reference denotes.
\<close>

definition index_um ::
  "('k \<Rightarrow> size_t) \<Rightarrow> 'v \<Rightarrow> ('k, 'v) mumap \<Rightarrow> 'k \<Rightarrow> (('k, 'v) mumap \<times> addr) option" where
  "index_um hasher dv s k = do {
     it \<leftarrow> find_um hasher s k;
     if it = m_end s then do {
       (s1, a, b) \<leftarrow> emplace hasher s k dv;
       Some (s1, a) }
     else Some (s, it) }"

text \<open>
  \<open>erase\<close>. \<open>erase_node\<close> is the body of the \<open>if\<close> in the loop, which ends the call: it
  repairs the bucket array, moves the successor of \<open>g\<close> into \<open>g\<close> and frees the successor.
\<close>

definition erase_node ::
  "('k, 'v) mumap \<Rightarrow> size_t \<Rightarrow> addr \<Rightarrow> ('k, 'v) mumap option" where
  "erase_node s h g = do {
     arr \<leftarrow> array s;
     b \<leftarrow> mem s g;
     n \<leftarrow> nxt b;
     hd0 \<leftarrow> array_read arr h;
     arr1 \<leftarrow> (if hd0 = Some g then
                (if n = m_end s then array_write arr h None
                 else do {
                   nb \<leftarrow> mem s n;
                   if hash nb = h then array_write arr h (Some n)
                   else array_write arr h None })
              else Some arr);
     (arr2, e) \<leftarrow> (if n \<noteq> m_end s then do {
                     nb \<leftarrow> mem s n;
                     hd1 \<leftarrow> array_read arr1 (hash nb);
                     if hd1 = Some n then do {
                       arr' \<leftarrow> array_write arr1 (hash nb) (Some g);
                       Some (arr', m_end s) }
                     else Some (arr1, m_end s) }
                   else Some (arr1, g));
     nb \<leftarrow> mem s n;
     Some (s\<lparr>mem := ((mem s)(g \<mapsto> nb))(n := None), array := Some arr2, m_end := e,
              m_count := (if m_count s = 0 then 2 ^ 64 - 1 else m_count s - 1)\<rparr>) }"

partial_function (option) erase_loop ::
  "('k, 'v) mumap \<Rightarrow> 'k \<Rightarrow> size_t \<Rightarrow> addr \<Rightarrow> (('k, 'v) mumap \<times> bool) option" where
  "erase_loop s k h g =
     (if g = m_end s then Some (s, False)
      else do {
        b \<leftarrow> mem s g;
        if hash b = h then
          (if fst (item b) = k then do { s1 \<leftarrow> erase_node s h g; Some (s1, True) }
           else do { n \<leftarrow> nxt b; erase_loop s k h n })
        else Some (s, False) })"

definition erase ::
  "('k \<Rightarrow> size_t) \<Rightarrow> ('k, 'v) mumap \<Rightarrow> 'k \<Rightarrow> (('k, 'v) mumap \<times> bool) option" where
  "erase hasher s k =
     (case array s of
        None \<Rightarrow> Some (s, False)
      | Some arr \<Rightarrow> do {
          let h = constrain_hash (hasher k) (m_size s);
          hd0 \<leftarrow> array_read arr h;
          case hd0 of
            None \<Rightarrow> Some (s, False)
          | Some g \<Rightarrow> erase_loop s k h g })"

text \<open>\<open>clear\<close> frees every node of the list, then the bucket array.\<close>

partial_function (option) clear_loop ::
  "(addr \<Rightarrow> ('k, 'v) bucket option) \<Rightarrow> addr \<Rightarrow> addr \<Rightarrow> (addr \<Rightarrow> ('k, 'v) bucket option) option" where
  "clear_loop m e g =
     (if g = e then Some m
      else do {
        b \<leftarrow> m g;
        n \<leftarrow> nxt b;
        clear_loop (m(g := None)) e n })"

definition clear :: "('k, 'v) mumap \<Rightarrow> ('k, 'v) mumap option" where
  "clear s = do {
     g \<leftarrow> m_start s;
     m1 \<leftarrow> clear_loop (mem s) (m_end s) g;
     Some (s\<lparr>mem := m1, array := None, m_size := 0, m_count := 0, m_start := Some (m_end s)\<rparr>) }"

text \<open>
  \<open>insert(std::initializer_list)\<close> and \<open>operator=(std::initializer_list)\<close>.
\<close>

fun insert_list ::
  "('k \<Rightarrow> size_t) \<Rightarrow> ('k, 'v) mumap \<Rightarrow> ('k \<times> 'v) list \<Rightarrow> ('k, 'v) mumap option" where
  "insert_list hasher s [] = Some s"
| "insert_list hasher s (i # list) = do {
     (s1, r) \<leftarrow> insert_um hasher s i;
     insert_list hasher s1 list }"

definition assign_list ::
  "('k \<Rightarrow> size_t) \<Rightarrow> ('k, 'v) mumap \<Rightarrow> ('k \<times> 'v) list \<Rightarrow> ('k, 'v) mumap option" where
  "assign_list hasher s list = do { s1 \<leftarrow> clear s; insert_list hasher s1 list }"

text \<open>
  The copy constructor: it starts from the default-constructed state, takes over the bucket
  count, the element count and the load factor of \<open>map\<close> (here \<open>other\<close>), and inserts the
  items of \<open>map\<close> one by one with their cached hashes. The nodes of \<open>map\<close> are read in the
  store of \<open>map\<close> and the new nodes are allocated in the store of the copy. The \<open>catch\<close> block runs only
  when an allocation fails, which the model leaves out.
\<close>

partial_function (option) copy_loop ::
  "(addr \<Rightarrow> ('k, 'v) bucket option) \<Rightarrow> addr \<Rightarrow> ('k, 'v) mumap \<Rightarrow> addr \<Rightarrow> ('k, 'v) mumap option" where
  "copy_loop m e s g =
     (if g = e then Some s
      else do {
        b \<leftarrow> m g;
        (s1, r) \<leftarrow> bucket_insert s (item b) (hash b);
        n \<leftarrow> nxt b;
        copy_loop m e s1 n })"

definition copy_construct :: "'k \<times> 'v \<Rightarrow> ('k, 'v) mumap \<Rightarrow> ('k, 'v) mumap option" where
  "copy_construct d other = do {
     let s0 = (init d)\<lparr>m_size := m_size other, m_count := m_count other,
                m_max_load_factor := m_max_load_factor other\<rparr>;
     let s1 = (if m_size other > 0 then s0\<lparr>array := Some (replicate (unat (m_size other)) None)\<rparr>
               else s0);
     let s2 = s1\<lparr>m_start := Some (m_end s1)\<rparr>;
     g \<leftarrow> m_start other;
     copy_loop (mem other) (m_end other) s2 g }"

text \<open>
  Copy assignment builds a copy and swaps it into \<open>*this\<close>; the old contents die with the
  temporary. \<open>self\<close> says that \<open>&map == this\<close>. The result is the new state of \<open>*this\<close>.
\<close>

definition copy_assign ::
  "'k \<times> 'v \<Rightarrow> bool \<Rightarrow> ('k, 'v) mumap \<Rightarrow> ('k, 'v) mumap \<Rightarrow> ('k, 'v) mumap option" where
  "copy_assign d self s other = (if self then Some s else copy_construct d other)"

text \<open>
  The move constructor takes every field of \<open>map\<close>, and leaves \<open>map\<close> with no bucket array,
  counts 0, load factor 1 and a new past-last sentinel: the default-constructed state.
  The result is the new object and what is left of \<open>map\<close>. Move assignment moves \<open>map\<close>
  into a temporary and swaps it into \<open>*this\<close>.
\<close>

definition move_construct ::
  "'k \<times> 'v \<Rightarrow> ('k, 'v) mumap \<Rightarrow> ('k, 'v) mumap \<times> ('k, 'v) mumap" where
  "move_construct d other = (other, init d)"

definition move_assign ::
  "'k \<times> 'v \<Rightarrow> bool \<Rightarrow> ('k, 'v) mumap \<Rightarrow> ('k, 'v) mumap \<Rightarrow> ('k, 'v) mumap \<times> ('k, 'v) mumap" where
  "move_assign d self s other = (if self then (s, s) else move_construct d other)"

section \<open>What a client observes\<close>

text \<open>
  The list a client gets when it walks the container from \<open>begin()\<close> to \<open>end()\<close> with \<open>++\<close>
  and collects \<open>*it\<close>.
\<close>

partial_function (option) traverse ::
  "(addr \<Rightarrow> ('k, 'v) bucket option) \<Rightarrow> addr \<Rightarrow> addr \<Rightarrow> ('k \<times> 'v) list option" where
  "traverse m e g =
     (if g = e then Some []
      else do {
        b \<leftarrow> m g;
        n \<leftarrow> nxt b;
        r \<leftarrow> traverse m e n;
        Some (item b # r) })"

definition contents :: "('k, 'v) mumap \<Rightarrow> ('k \<times> 'v) list option" where
  "contents s = do { g \<leftarrow> m_start s; traverse (mem s) (m_end s) g }"

text \<open>\<open>*it\<close> for an iterator \<open>it\<close> at address \<open>a\<close>.\<close>

definition item_at :: "('k, 'v) mumap \<Rightarrow> addr \<Rightarrow> ('k \<times> 'v) option" where
  "item_at s a = map_option item (mem s a)"

text \<open>
  \<open>find\<close> followed by \<open>it->second\<close>: the value the container maps \<open>k\<close> to, \<open>Some None\<close> when
  \<open>find\<close> returns the end marker.
\<close>

definition lookup :: "('k \<Rightarrow> size_t) \<Rightarrow> ('k, 'v) mumap \<Rightarrow> 'k \<Rightarrow> 'v option option" where
  "lookup hasher s k = do {
     a \<leftarrow> find_um hasher s k;
     if a = m_end s then Some None
     else do { b \<leftarrow> mem s a; Some (Some (snd (item b))) } }"

text \<open>
  A client that calls public operations one after the other on the object it holds.
  \<open>Copy\<close> goes on with a copy of the object (copy construction, or the target of a copy
  assignment), \<open>MoveTo\<close> with the object it was moved into and \<open>MovedFrom\<close> with what the
  move left behind. A \<open>rehash\<close> that throws leaves the client with the object as it was.
\<close>

datatype ('k, 'v) op =
    Insert "'k \<times> 'v"
  | InsertList "('k \<times> 'v) list"
  | AssignList "('k \<times> 'v) list"
  | Emplace 'k 'v
  | Index 'k
  | Erase 'k
  | Rehash size_t
  | Clear
  | MaxLoadFactor rat
  | Copy
  | MoveTo
  | MovedFrom

fun step ::
  "('k \<Rightarrow> size_t) \<Rightarrow> 'k \<times> 'v \<Rightarrow> ('k, 'v) mumap \<Rightarrow> ('k, 'v) op \<Rightarrow> ('k, 'v) mumap option" where
  "step hasher d s (Insert p) = map_option fst (insert_um hasher s p)"
| "step hasher d s (InsertList ps) = insert_list hasher s ps"
| "step hasher d s (AssignList ps) = assign_list hasher s ps"
| "step hasher d s (Emplace k v) = map_option fst (emplace hasher s k v)"
| "step hasher d s (Index k) = map_option fst (index_um hasher (snd d) s k)"
| "step hasher d s (Erase k) = map_option fst (erase hasher s k)"
| "step hasher d s (Rehash n) =
     (case rehash hasher s n of
        None \<Rightarrow> None
      | Some (Inl e) \<Rightarrow> Some s
      | Some (Inr s') \<Rightarrow> Some s')"
| "step hasher d s Clear = clear s"
| "step hasher d s (MaxLoadFactor f) = Some (max_load_factor s f)"
| "step hasher d s Copy = copy_construct d s"
| "step hasher d s MoveTo = Some (fst (move_construct d s))"
| "step hasher d s MovedFrom = Some (snd (move_construct d s))"

fun run_ops ::
  "('k \<Rightarrow> size_t) \<Rightarrow> 'k \<times> 'v \<Rightarrow> ('k, 'v) mumap \<Rightarrow> ('k, 'v) op list \<Rightarrow> ('k, 'v) mumap option" where
  "run_ops hasher d s [] = Some s"
| "run_ops hasher d s (x # xs) = do { s1 \<leftarrow> step hasher d s x; run_ops hasher d s1 xs }"

definition reachable :: "('k \<Rightarrow> size_t) \<Rightarrow> 'k \<times> 'v \<Rightarrow> ('k, 'v) mumap \<Rightarrow> bool" where
  "reachable hasher d s \<longleftrightarrow> (\<exists>ops. run_ops hasher d (init d) ops = Some s)"

section \<open>Hash constraining: the claim\<close>

lemma size_t_one_or_two:
  fixes n :: size_t
  assumes "1 \<le> n" "\<not> 2 < n"
  shows "n = 1 \<or> n = 2"
proof -
  from assms have "1 \<le> unat n" "unat n \<le> 2"
    by (simp_all add: word_le_nat_alt word_less_nat_alt)
  then have "unat n = 1 \<or> unat n = 2" by arith
  then show ?thesis
  proof
    assume "unat n = 1"
    then have "(of_nat (unat n) :: size_t) = of_nat 1" by (rule arg_cong)
    then show ?thesis by simp
  next
    assume "unat n = 2"
    then have "(of_nat (unat n) :: size_t) = of_nat 2" by (rule arg_cong)
    then show ?thesis by simp
  qed
qed

text \<open>
  C9. For every raw hash \<open>h\<close> and every bucket count \<open>n \<ge> 1\<close>, \<open>__constrain_hash\<close> returns
  \<open>h & (n - 1)\<close> when \<open>n\<close> is a power of two greater than 2 (the test of
  \<open>__is_hash_power2\<close>), and otherwise \<open>h\<close> when \<open>h < n\<close>, else \<open>h mod n\<close>. The code tests only
  \<open>n & (n - 1)\<close>, so it also masks for \<open>n = 1\<close> and \<open>n = 2\<close>, where the mask and the remainder
  agree.
\<close>

theorem constrain_hash_spec:
  "1 \<le> n \<Longrightarrow>
   constrain_hash h n =
     (if is_hash_power2 n then h AND (n - 1) else if h < n then h else h mod n)"
proof -
  assume n: "1 \<le> n"
  show ?thesis
  proof (cases "n AND (n - 1) = 0")
    case False
    then show ?thesis by (simp add: constrain_hash_def is_hash_power2_def)
  next
    case True
    show ?thesis
    proof (cases "2 < n")
      case True
      with \<open>n AND (n - 1) = 0\<close> show ?thesis
        by (simp add: constrain_hash_def is_hash_power2_def)
    next
      case False
      with n have "n = 1 \<or> n = 2" by (rule size_t_one_or_two)
      then show ?thesis
      proof
        assume "n = 1"
        then show ?thesis
          by (simp add: constrain_hash_def is_hash_power2_def word_less_1)
      next
        assume "n = 2"
        then show ?thesis
          by (simp add: constrain_hash_def is_hash_power2_def and_one_eq mod_word_less)
      qed
    qed
  qed
qed

theorem constrain_hash_spec_witness:
  "(1::size_t) \<le> 8 \<and> is_hash_power2 8 \<and> constrain_hash 13 8 = 13 AND (8 - 1) \<and>
   (1::size_t) \<le> 6 \<and> \<not> is_hash_power2 6 \<and> constrain_hash 13 6 = 13 mod 6 \<and>
   constrain_hash 5 6 = 5"
  using constrain_hash_spec [of 8 13] constrain_hash_spec [of 6 13] constrain_hash_spec [of 6 5]
  by (simp add: is_hash_power2_def)

end
